theory Spec2Isabelle
  imports Complex_Main "HOL-Library.Sublist"
begin

section \<open>Python string primitives used by the catalog and the recommender\<close>

text \<open>
  Strings are modelled as \<^typ>\<open>string\<close> over ASCII text: \<open>str.lower\<close> maps the
  letters \<open>A\<close>..\<open>Z\<close> to \<open>a\<close>..\<open>z\<close> and leaves every other character alone, and
  the regular expression class \<open>\w\<close> is a letter, a digit or the underscore.
\<close>

definition lower_char :: "char \<Rightarrow> char" where
  "lower_char c =
     (let n = (of_char c :: nat) in if 65 \<le> n \<and> n \<le> 90 then char_of (n + 32) else c)"

definition lower :: "string \<Rightarrow> string" where
  "lower s = map lower_char s"

definition is_word_char :: "char \<Rightarrow> bool" where
  "is_word_char c =
     (let n = (of_char c :: nat)
      in (48 \<le> n \<and> n \<le> 57) \<or> (65 \<le> n \<and> n \<le> 90) \<or> n = 95 \<or> (97 \<le> n \<and> n \<le> 122))"

text \<open>
  \<open>re.findall(r'\w+', s)\<close>: the maximal runs of word characters of \<open>s\<close>, from left to
  right. The first argument is the run being read.
\<close>

fun findall_w_run :: "string \<Rightarrow> string \<Rightarrow> string list" where
  "findall_w_run cur [] = (if cur = [] then [] else [cur])"
| "findall_w_run cur (c # cs) =
     (if is_word_char c then findall_w_run (cur @ [c]) cs
      else if cur = [] then findall_w_run [] cs
      else cur # findall_w_run [] cs)"

definition findall_w :: "string \<Rightarrow> string list" where
  "findall_w s = findall_w_run [] s"

text \<open>Python's \<open>sub in s\<close> on strings: \<open>sub\<close> occurs in \<open>s\<close> as a contiguous block.\<close>

fun str_in :: "string \<Rightarrow> string \<Rightarrow> bool" where
  "str_in sub [] = (sub = [])"
| "str_in sub (c # cs) = (prefix sub (c # cs) \<or> str_in sub cs)"

text \<open>\<open>sep.join(xs)\<close>.\<close>

fun join :: "string \<Rightarrow> string list \<Rightarrow> string" where
  "join sep [] = []"
| "join sep [x] = x"
| "join sep (x # y # ys) = x @ sep @ join sep (y # ys)"

text \<open>The decimal text of an integer, as an f-string prints it.\<close>

fun str_nat :: "nat \<Rightarrow> string" where
  "str_nat n =
     (if n < 10 then [char_of (48 + n)] else str_nat (n div 10) @ [char_of (48 + n mod 10)])"

declare str_nat.simps [simp del]

definition str_int :: "int \<Rightarrow> string" where
  "str_int i = (if i < 0 then CHR ''-'' # str_nat (nat (- i)) else str_nat (nat i))"

definition sq :: string where
  "sq = [CHR 0x27]"


section \<open>Graph records\<close>

text \<open>
  What \<open>json.load\<close> returns: a dictionary (here an association list read by
  \<^const>\<open>map_of\<close>), a list, a string, a number, a truth value or \<open>None\<close>.
\<close>

datatype json =
    JNull
  | JBool bool
  | JNum rat
  | JStr string
  | JList "json list"
  | JDict "(string \<times> json) list"

text \<open>
  The metadata dictionary built by \<open>DynParser.parse_dyn_file\<close>. The type parameter is
  the type of the values read from the source data with \<open>dict.get\<close>: the parser stores
  whatever JSON value the file holds, while the catalog queries and the recommender call
  \<open>.lower()\<close> on them and so work on records whose text fields are strings.
\<close>

record 's node =
  node_name :: 's
  node_type :: 's
  node_id :: 's

record 's graph =
  filepath :: string
  filename :: string
  name :: 's
  description :: 's
  uuid :: 's
  author :: 's
  category :: 's
  nodes :: "'s node list"
  node_count :: int
  connector_count :: int
  view :: "(json \<times> json \<times> json) option"


section \<open>RecommendationEngine._score_graph\<close>

definition complexity_keywords :: "string list" where
  "complexity_keywords = [''complex'', ''advanced'', ''detailed'', ''comprehensive'']"

definition simplicity_keywords :: "string list" where
  "simplicity_keywords = [''simple'', ''basic'', ''easy'', ''quick'', ''minimal'']"

text \<open>
  The inner loop \<open>for word in intent_words: if ...: node_matches += 1; break\<close>: the
  result says whether the \<open>break\<close> was reached. A Python set is iterated in an order
  the language does not fix, so the loop runs over a list enumerating the set.
\<close>

fun word_loop :: "string list \<Rightarrow> string \<Rightarrow> string \<Rightarrow> bool" where
  "word_loop [] node_name_lower node_type_lower = False"
| "word_loop (word # ws) node_name_lower node_type_lower =
     (if str_in word node_name_lower \<or> str_in word node_type_lower then True
      else word_loop ws node_name_lower node_type_lower)"

fun node_loop :: "string list \<Rightarrow> string node list \<Rightarrow> nat \<Rightarrow> nat" where
  "node_loop ws [] node_matches = node_matches"
| "node_loop ws (node # rest) node_matches =
     (let node_name_lower = lower (node_name node);
          node_type_lower = lower (node_type node)
      in node_loop ws rest
           (if word_loop ws node_name_lower node_type_lower then node_matches + 1
            else node_matches))"

text \<open>
  The body of \<open>_score_graph\<close> updates the pair of \<open>score\<close> and \<open>reasons\<close> in
  seven blocks, one per comment of the source. Each block is a function on that pair.
  The scores are sums of whole numbers, which floating point represents exactly, so they
  are modelled as reals.
\<close>

type_synonym acc = "real \<times> string list"

definition score_name_match :: "string graph \<Rightarrow> string set \<Rightarrow> acc \<Rightarrow> acc" where
  "score_name_match graph intent_words = (\<lambda>(score, reasons).
     let name_lower = lower (name graph);
         name_words = set (findall_w name_lower);
         name_overlap = card (intent_words \<inter> name_words)
     in if name_overlap > 0
        then (score + real name_overlap * 10.0,
              reasons @ [''name matches '' @ sq @ name graph @ sq])
        else (score, reasons))"

definition exact_name_bonus :: "string graph \<Rightarrow> string \<Rightarrow> acc \<Rightarrow> acc" where
  "exact_name_bonus graph intent_lower = (\<lambda>(score, reasons).
     let name_lower = lower (name graph)
     in if str_in intent_lower name_lower \<or> str_in name_lower intent_lower
        then (score + 20.0, reasons @ [''name closely matches query''])
        else (score, reasons))"

definition score_description_match :: "string graph \<Rightarrow> string set \<Rightarrow> acc \<Rightarrow> acc" where
  "score_description_match graph intent_words = (\<lambda>(score, reasons).
     let description_lower = lower (description graph)
     in if description_lower \<noteq> []
        then (let desc_words = set (findall_w description_lower);
                  desc_overlap = card (intent_words \<inter> desc_words)
              in if desc_overlap > 0
                 then (score + real desc_overlap * 5.0,
                       reasons @ [''description contains relevant keywords''])
                 else (score, reasons))
        else (score, reasons))"

definition score_category_match :: "string graph \<Rightarrow> string set \<Rightarrow> acc \<Rightarrow> acc" where
  "score_category_match graph intent_words = (\<lambda>(score, reasons).
     let category_lower = lower (category graph);
         category_words = set (findall_w category_lower);
         category_overlap = card (intent_words \<inter> category_words)
     in if category_overlap > 0
        then (score + real category_overlap * 7.0,
              reasons @ [''category '' @ sq @ category graph @ sq @ '' matches''])
        else (score, reasons))"

definition score_node_matches :: "string graph \<Rightarrow> string list \<Rightarrow> acc \<Rightarrow> acc" where
  "score_node_matches graph word_order = (\<lambda>(score, reasons).
     let node_matches = node_loop word_order (nodes graph) 0
     in if node_matches > 0
        then (score + real node_matches * 3.0,
              reasons @ [''contains '' @ str_nat node_matches @ '' relevant node(s)''])
        else (score, reasons))"

definition complexity_bonus_step :: "string graph \<Rightarrow> string \<Rightarrow> acc \<Rightarrow> acc" where
  "complexity_bonus_step graph intent_lower = (\<lambda>(score, reasons).
     if list_ex (\<lambda>kw. str_in kw intent_lower) complexity_keywords
     then (if node_count graph > 10
           then (score + 5.0,
                 reasons @ [''complex graph with '' @ str_int (node_count graph) @ '' nodes''])
           else (score, reasons))
     else (score, reasons))"

definition simplicity_bonus_step :: "string graph \<Rightarrow> string \<Rightarrow> acc \<Rightarrow> acc" where
  "simplicity_bonus_step graph intent_lower = (\<lambda>(score, reasons).
     if list_ex (\<lambda>kw. str_in kw intent_lower) simplicity_keywords
     then (if node_count graph \<le> 5
           then (score + 5.0,
                 reasons @ [''simple graph with '' @ str_int (node_count graph) @ '' nodes''])
           else (score, reasons))
     else (score, reasons))"

definition generate_explanation :: "string list \<Rightarrow> string" where
  "generate_explanation reasons =
     (if reasons \<noteq> [] then ''Recommended because '' @ join '', '' reasons @ ''.''
      else ''No specific match found.'')"

text \<open>
  \<open>_score_graph\<close>; \<open>word_order\<close> is the order in which the set \<open>intent_words\<close> is
  iterated by the node loop.
\<close>

definition score_graph_iter :: "string list \<Rightarrow> string graph \<Rightarrow> string \<Rightarrow> real \<times> string" where
  "score_graph_iter word_order graph user_intent =
     (let acc = (0.0, []);
          intent_lower = lower user_intent;
          intent_words = set (findall_w intent_lower);
          acc = score_name_match graph intent_words acc;
          acc = exact_name_bonus graph intent_lower acc;
          acc = score_description_match graph intent_words acc;
          acc = score_category_match graph intent_words acc;
          acc = score_node_matches graph word_order acc;
          acc = complexity_bonus_step graph intent_lower acc;
          acc = simplicity_bonus_step graph intent_lower acc;
          (score, reasons) = acc
      in (score, generate_explanation reasons))"

text \<open>The scorer with the token set iterated in order of first occurrence in the query.\<close>

definition score_graph :: "string graph \<Rightarrow> string \<Rightarrow> real \<times> string" where
  "score_graph graph user_intent =
     score_graph_iter (remdups (findall_w (lower user_intent))) graph user_intent"

section \<open>GraphCatalog\<close>

text \<open>A documentation record, as \<open>DynParser.parse_documentation\<close> builds it.\<close>

record doc =
  doc_filepath :: string
  doc_filename :: string
  doc_content :: string
  doc_size :: nat

text \<open>The attributes of a \<open>GraphCatalog\<close> that its methods read or assign.\<close>

record 's catalog =
  docs_path :: "string option"
  graphs :: "'s graph list"
  docs :: "doc list"

text \<open>\<open>GraphCatalog.__init__\<close>; an empty \<open>docs_path\<close> string counts as none.\<close>

definition init_catalog :: "string option \<Rightarrow> 's catalog" where
  "init_catalog dp =
     \<lparr>docs_path = (case dp of None \<Rightarrow> None | Some p \<Rightarrow> if p = [] then None else Some p),
      graphs = [], docs = []\<rparr>"

definition get_all_graphs :: "'s catalog \<Rightarrow> 's graph list" where
  "get_all_graphs c = graphs c"

text \<open>\<open>get_graph_by_name\<close>: the loop returns at the first match, \<open>None\<close> after it.\<close>

fun get_graph_by_name_loop :: "string graph list \<Rightarrow> string \<Rightarrow> string graph option" where
  "get_graph_by_name_loop [] n = None"
| "get_graph_by_name_loop (graph # rest) n =
     (if lower (name graph) = lower n then Some graph else get_graph_by_name_loop rest n)"

definition get_graph_by_name :: "string catalog \<Rightarrow> string \<Rightarrow> string graph option" where
  "get_graph_by_name c n = get_graph_by_name_loop (graphs c) n"

text \<open>\<open>search_graphs\<close>: the f-string joins the four parts with single spaces.\<close>

definition searchable_text :: "string graph \<Rightarrow> string" where
  "searchable_text graph =
     lower (name graph @ '' '' @ description graph @ '' '' @ category graph @ '' ''
            @ join '' '' (map node_name (nodes graph)))"

fun search_loop :: "string graph list \<Rightarrow> string \<Rightarrow> string graph list \<Rightarrow> string graph list" where
  "search_loop [] query_lower results = results"
| "search_loop (graph # rest) query_lower results =
     search_loop rest query_lower
       (if str_in query_lower (searchable_text graph) then results @ [graph] else results)"

definition search_graphs :: "string catalog \<Rightarrow> string \<Rightarrow> string graph list" where
  "search_graphs c query = (let query_lower = lower query in search_loop (graphs c) query_lower [])"


section \<open>DynParser\<close>

datatype error = OSError | UnicodeDecodeError | JSONDecodeError | AttributeError

text \<open>
  A path found by \<open>rglob('*.dyn')\<close> with what the file system gives for it:
  \<open>str(filepath)\<close>, \<open>filepath.name\<close>, \<open>filepath.stem\<close> and the outcome of \<open>open\<close>
  followed by \<open>json.load\<close>.
\<close>

record dyn_file =
  path_str :: string
  path_name :: string
  path_stem :: string
  load :: "error + json"

text \<open>\<open>d.get(k, default)\<close> on a dictionary.\<close>

definition dict_get :: "(string \<times> json) list \<Rightarrow> string \<Rightarrow> json \<Rightarrow> json" where
  "dict_get d k dflt = (case map_of d k of None \<Rightarrow> dflt | Some v \<Rightarrow> v)"

text \<open>The loop over \<open>content['Nodes']\<close>: entries that are not dictionaries are skipped.\<close>

fun node_infos :: "json list \<Rightarrow> json node list" where
  "node_infos [] = []"
| "node_infos (JDict node # rest) =
     \<lparr>node_name = dict_get node ''Name'' (JStr []),
      node_type = dict_get node ''ConcreteType'' (JStr []),
      node_id = dict_get node ''Id'' (JStr [])\<rparr> # node_infos rest"
| "node_infos (_ # rest) = node_infos rest"

text \<open>
  The \<open>try\<close> block of \<open>parse_dyn_file\<close>. \<open>content.get\<close> and \<open>view.get\<close> raise
  \<open>AttributeError\<close> on a value that is not a dictionary.
\<close>

definition parse_body :: "dyn_file \<Rightarrow> error + json graph" where
  "parse_body f =
     (case load f of
        Inl e \<Rightarrow> Inl e
      | Inr (JDict content) \<Rightarrow>
          (let metadata =
                 \<lparr>filepath = path_str f,
                  filename = path_name f,
                  name = dict_get content ''Name'' (JStr (path_stem f)),
                  description = dict_get content ''Description'' (JStr []),
                  uuid = dict_get content ''Uuid'' (JStr []),
                  author = dict_get content ''Author'' (JStr []),
                  category = dict_get content ''Category'' (JStr ''Uncategorized''),
                  nodes = [],
                  node_count = 0,
                  connector_count = 0,
                  view = None\<rparr>;
               metadata =
                 (case map_of content ''Nodes'' of
                    Some (JList ns) \<Rightarrow>
                      metadata\<lparr>node_count := int (length ns), nodes := node_infos ns\<rparr>
                  | _ \<Rightarrow> metadata);
               metadata =
                 (case map_of content ''Connectors'' of
                    Some (JList cs) \<Rightarrow> metadata\<lparr>connector_count := int (length cs)\<rparr>
                  | _ \<Rightarrow> metadata)
           in case map_of content ''View'' of
                None \<Rightarrow> Inr metadata
              | Some (JDict v) \<Rightarrow>
                  Inr (metadata\<lparr>view := Some (dict_get v ''X'' (JNum 0), dict_get v ''Y'' (JNum 0),
                                              dict_get v ''Zoom'' (JNum 1))\<rparr>)
              | Some _ \<Rightarrow> Inl AttributeError)
      | Inr _ \<Rightarrow> Inl AttributeError)"

text \<open>\<open>parse_dyn_file\<close>: both \<open>except\<close> clauses return \<open>None\<close>.\<close>

definition parse_dyn_file :: "dyn_file \<Rightarrow> json graph option" where
  "parse_dyn_file f = (case parse_body f of Inl e \<Rightarrow> None | Inr metadata \<Rightarrow> Some metadata)"

text \<open>
  A documentation path with whether it exists and what reading it gives.
  \<open>parse_documentation\<close> returns the empty dictionary on failure, which the caller's
  \<open>if doc_metadata\<close> drops; the empty dictionary is \<open>None\<close> here.
\<close>

record doc_file =
  doc_path_str :: string
  doc_path_name :: string
  doc_exists :: bool
  doc_read :: "error + string"

definition parse_documentation :: "doc_file \<Rightarrow> doc option" where
  "parse_documentation f =
     (if \<not> doc_exists f then None
      else case doc_read f of
             Inl e \<Rightarrow> None
           | Inr content \<Rightarrow>
               Some \<lparr>doc_filepath = doc_path_str f, doc_filename = doc_path_name f,
                     doc_content = content, doc_size = length content\<rparr>)"


section \<open>GraphCatalog.build_catalog\<close>

text \<open>
  What the file system gives when \<open>build_catalog\<close> runs: the outcome of
  \<open>Path.exists()\<close> on the repository path, the files \<open>rglob('*.dyn')\<close> lists, the
  outcome of \<open>Path.exists()\<close> on the documentation path and the files \<open>rglob('*.md')\<close>
  and \<open>rglob('*.txt')\<close> list under it. \<open>Path.exists()\<close> answers true or false, or
  raises \<open>OSError\<close> (a path name that is too long, for one); \<open>build_catalog\<close> calls it
  outside any \<open>try\<close>.
\<close>

record fs =
  repo_exists :: "error + bool"
  dyn_files :: "dyn_file list"
  docs_exists :: "error + bool"
  md_files :: "doc_file list"
  txt_files :: "doc_file list"

fun index_graphs :: "dyn_file list \<Rightarrow> json catalog \<Rightarrow> json catalog" where
  "index_graphs [] c = c"
| "index_graphs (dyn_file # rest) c =
     index_graphs rest
       (case parse_dyn_file dyn_file of
          Some metadata \<Rightarrow> c\<lparr>graphs := graphs c @ [metadata]\<rparr>
        | None \<Rightarrow> c)"

fun index_docs :: "doc_file list \<Rightarrow> json catalog \<Rightarrow> json catalog" where
  "index_docs [] c = c"
| "index_docs (doc_file # rest) c =
     index_docs rest
       (case parse_documentation doc_file of
          Some doc_metadata \<Rightarrow> c\<lparr>docs := docs c @ [doc_metadata]\<rparr>
        | None \<Rightarrow> c)"

text \<open>
  \<open>build_catalog\<close> returns the state the catalog is left in and either the count or the
  exception that reaches the caller. The assignment \<open>self.graphs = []\<close> comes first, so
  it has taken place also when an exception follows. \<open>self.docs_path.exists()\<close> is
  called only when a documentation path is configured.
\<close>

definition build_catalog :: "fs \<Rightarrow> json catalog \<Rightarrow> json catalog \<times> (error + nat)" where
  "build_catalog files c =
     (let c = c\<lparr>graphs := []\<rparr>
      in case repo_exists files of
           Inl e \<Rightarrow> (c, Inl e)
         | Inr False \<Rightarrow> (c, Inr 0)
         | Inr True \<Rightarrow>
             (let c = index_graphs (dyn_files files) c
              in if docs_path c \<noteq> None
                 then (case docs_exists files of
                         Inl e \<Rightarrow> (c, Inl e)
                       | Inr found \<Rightarrow>
                           (let c = (if found
                                     then index_docs (md_files files @ txt_files files) c
                                     else c)
                            in (c, Inr (length (graphs c)))))
                 else (c, Inr (length (graphs c)))))"


section \<open>RecommendationEngine.recommend\<close>

type_synonym result = "string graph \<times> real \<times> string"

text \<open>The loop that scores each graph and keeps those with a positive score.\<close>

fun score_all :: "string graph list \<Rightarrow> string \<Rightarrow> result list \<Rightarrow> result list" where
  "score_all [] user_intent scored_graphs = scored_graphs"
| "score_all (graph # rest) user_intent scored_graphs =
     (let (score, explanation) = score_graph graph user_intent
      in score_all rest user_intent
           (if score > 0 then scored_graphs @ [(graph, score, explanation)] else scored_graphs))"

text \<open>
  \<open>list.sort(key=lambda x: x[1], reverse=True)\<close>: a stable sort by descending score,
  that is a stable ascending sort on the negated score.
\<close>

definition sort_by_score_desc :: "result list \<Rightarrow> result list" where
  "sort_by_score_desc xs = sort_key (\<lambda>x. - fst (snd x)) xs"

text \<open>The slice \<open>xs[:k]\<close>; a negative \<open>k\<close> counts from the end.\<close>

definition slice_to :: "'a list \<Rightarrow> int \<Rightarrow> 'a list" where
  "slice_to xs k = (if 0 \<le> k then take (nat k) xs else take (nat (int (length xs) + k)) xs)"

definition recommend :: "string catalog \<Rightarrow> string \<Rightarrow> int \<Rightarrow> result list" where
  "recommend c user_intent max_results =
     (let graphs = get_all_graphs c
      in if graphs = [] then []
         else let scored_graphs = score_all graphs user_intent [];
                  scored_graphs = sort_by_score_desc scored_graphs;
                  results = slice_to scored_graphs max_results
              in results)"


section \<open>The scoring contract, as the specification words it\<close>

text \<open>
  The seven signals of the specification. The query is lower-cased once; its token set
  is the set of maximal word-character runs of the lower-cased query. In the
  specification "the raw query" is the lower-cased, untokenised query.
\<close>

definition query_tokens :: "string \<Rightarrow> string set" where
  "query_tokens q = set (findall_w (lower q))"

definition tokens_of :: "string \<Rightarrow> string set" where
  "tokens_of s = set (findall_w (lower s))"

definition name_word_overlap :: "string graph \<Rightarrow> string \<Rightarrow> nat" where
  "name_word_overlap g q = card (query_tokens q \<inter> tokens_of (name g))"

definition name_substring :: "string graph \<Rightarrow> string \<Rightarrow> bool" where
  "name_substring g q \<longleftrightarrow>
     str_in (lower q) (lower (name g)) \<or> str_in (lower (name g)) (lower q)"

definition description_word_overlap :: "string graph \<Rightarrow> string \<Rightarrow> nat" where
  "description_word_overlap g q =
     (if description g = [] then 0 else card (query_tokens q \<inter> tokens_of (description g)))"

definition category_word_overlap :: "string graph \<Rightarrow> string \<Rightarrow> nat" where
  "category_word_overlap g q = card (query_tokens q \<inter> tokens_of (category g))"

definition node_matched :: "string \<Rightarrow> string node \<Rightarrow> bool" where
  "node_matched q n \<longleftrightarrow>
     (\<exists>w \<in> query_tokens q. str_in w (lower (node_name n)) \<or> str_in w (lower (node_type n)))"

definition matched_nodes :: "string graph \<Rightarrow> string \<Rightarrow> nat" where
  "matched_nodes g q = length (filter (node_matched q) (nodes g))"

definition complexity_bonus :: "string graph \<Rightarrow> string \<Rightarrow> bool" where
  "complexity_bonus g q \<longleftrightarrow>
     (\<exists>kw \<in> {''complex'', ''advanced'', ''detailed'', ''comprehensive''}. str_in kw (lower q))
     \<and> node_count g > 10"

definition simplicity_bonus :: "string graph \<Rightarrow> string \<Rightarrow> bool" where
  "simplicity_bonus g q \<longleftrightarrow>
     (\<exists>kw \<in> {''simple'', ''basic'', ''easy'', ''quick'', ''minimal''}. str_in kw (lower q))
     \<and> node_count g \<le> 5"

definition spec_score :: "string graph \<Rightarrow> string \<Rightarrow> real" where
  "spec_score g q =
     real (name_word_overlap g q) * 10.0
     + (if name_substring g q then 20.0 else 0)
     + real (description_word_overlap g q) * 5.0
     + real (category_word_overlap g q) * 7.0
     + real (matched_nodes g q) * 3.0
     + (if complexity_bonus g q then 5.0 else 0)
     + (if simplicity_bonus g q then 5.0 else 0)"

text \<open>The clauses of the signals that fire, in the order of the signals.\<close>

definition spec_clauses :: "string graph \<Rightarrow> string \<Rightarrow> string list" where
  "spec_clauses g q =
     (if name_word_overlap g q > 0 then [''name matches '' @ sq @ name g @ sq] else [])
     @ (if name_substring g q then [''name closely matches query''] else [])
     @ (if description_word_overlap g q > 0 then [''description contains relevant keywords'']
        else [])
     @ (if category_word_overlap g q > 0
        then [''category '' @ sq @ category g @ sq @ '' matches''] else [])
     @ (if matched_nodes g q > 0
        then [''contains '' @ str_nat (matched_nodes g q) @ '' relevant node(s)''] else [])
     @ (if complexity_bonus g q
        then [''complex graph with '' @ str_int (node_count g) @ '' nodes''] else [])
     @ (if simplicity_bonus g q
        then [''simple graph with '' @ str_int (node_count g) @ '' nodes''] else [])"

definition spec_explanation :: "string graph \<Rightarrow> string \<Rightarrow> string" where
  "spec_explanation g q =
     (if spec_clauses g q = [] then ''No specific match found.''
      else ''Recommended because '' @ join '', '' (spec_clauses g q) @ ''.'')"


section \<open>The records of the specification's scenarios\<close>

definition simple_rectangle :: "string graph" where
  "simple_rectangle =
     \<lparr>filepath = ''/graphs/test0.dyn'', filename = ''test0.dyn'', name = ''Simple Rectangle'',
      description = [], uuid = [], author = [], category = ''Geometry'', nodes = [],
      node_count = 3, connector_count = 0, view = None\<rparr>"

definition complex_wall_analysis :: "string graph" where
  "complex_wall_analysis =
     \<lparr>filepath = ''/graphs/test1.dyn'', filename = ''test1.dyn'',
      name = ''Complex Wall Analysis'', description = [], uuid = [], author = [],
      category = ''Analysis'', nodes = [], node_count = 10, connector_count = 0, view = None\<rparr>"

definition scenario_catalog :: "string catalog" where
  "scenario_catalog =
     \<lparr>docs_path = None, graphs = [simple_rectangle, complex_wall_analysis], docs = []\<rparr>"


section \<open>The search criterion, as the specification words it\<close>

text \<open>
  The specification's criterion for \<open>search\<close>: the query, compared case-insensitively,
  is a substring of the concatenation of the name, the description, the category and all
  node names.
\<close>

definition spec_concatenation :: "string graph \<Rightarrow> string" where
  "spec_concatenation g =
     name g @ description g @ category g @ concat (map node_name (nodes g))"

definition spec_search_member :: "string \<Rightarrow> string graph \<Rightarrow> bool" where
  "spec_search_member q g \<longleftrightarrow> str_in (lower q) (lower (spec_concatenation g))"


section \<open>Example files\<close>

text \<open>
  A file whose JSON object has the key \<open>Name\<close> with the empty string, a file without
  that key, a file that is not JSON, a documentation file, and two states of the file
  system.
\<close>

definition empty_name_file :: dyn_file where
  "empty_name_file =
     \<lparr>path_str = ''/graphs/wall.dyn'', path_name = ''wall.dyn'', path_stem = ''wall'',
      load = Inr (JDict [(''Name'', JStr [])])\<rparr>"

definition unnamed_file :: dyn_file where
  "unnamed_file =
     \<lparr>path_str = ''/graphs/plain.dyn'', path_name = ''plain.dyn'', path_stem = ''plain'',
      load = Inr (JDict [(''Nodes'', JList [])])\<rparr>"

definition broken_file :: dyn_file where
  "broken_file =
     \<lparr>path_str = ''/graphs/broken.dyn'', path_name = ''broken.dyn'', path_stem = ''broken'',
      load = Inl JSONDecodeError\<rparr>"

definition guide_file :: doc_file where
  "guide_file =
     \<lparr>doc_path_str = ''/docs/guide.md'', doc_path_name = ''guide.md'', doc_exists = True,
      doc_read = Inr ''Guide''\<rparr>"

definition guide_doc :: doc where
  "guide_doc =
     \<lparr>doc_filepath = ''/docs/guide.md'', doc_filename = ''guide.md'', doc_content = ''Guide'',
      doc_size = 5\<rparr>"

definition example_fs :: fs where
  "example_fs =
     \<lparr>repo_exists = Inr True, dyn_files = [unnamed_file, broken_file, empty_name_file],
      docs_exists = Inr True, md_files = [guide_file], txt_files = []\<rparr>"





section \<open>The scorer computes the seven signals\<close>

lemma lower_Nil_iff: "lower s = [] \<longleftrightarrow> s = []"
  by (simp add: lower_def)

lemma length_lower: "length (lower s) = length s"
  by (simp add: lower_def)

lemma str_in_Nil: "str_in [] s"
  by (cases s) simp_all

lemma str_in_sublist: "str_in sub s \<longleftrightarrow> sublist sub s"
  by (induction s) (auto simp: sublist_Cons_right)

lemma word_loop_iff:
  "word_loop ws nn nt \<longleftrightarrow> (\<exists>w \<in> set ws. str_in w nn \<or> str_in w nt)"
  by (induction ws) auto

lemma node_loop_count:
  "node_loop ws ns k =
     k + length (filter (\<lambda>n. word_loop ws (lower (node_name n)) (lower (node_type n))) ns)"
  by (induction ns arbitrary: k) (simp_all add: Let_def)

lemma node_loop_matched:
  "set ws = query_tokens q \<Longrightarrow> node_loop ws (nodes g) 0 = matched_nodes g q"
proof -
  assume ws: "set ws = query_tokens q"
  have "(\<lambda>n. word_loop ws (lower (node_name n)) (lower (node_type n))) = node_matched q"
    by (rule ext) (simp add: word_loop_iff node_matched_def ws)
  then show ?thesis
    by (simp add: node_loop_count matched_nodes_def)
qed

lemma complexity_keywords_iff:
  "list_ex (\<lambda>kw. str_in kw s) complexity_keywords \<longleftrightarrow>
     (\<exists>kw \<in> {''complex'', ''advanced'', ''detailed'', ''comprehensive''}. str_in kw s)"
  unfolding complexity_keywords_def list_ex_iff by (rule bex_cong) simp_all

lemma simplicity_keywords_iff:
  "list_ex (\<lambda>kw. str_in kw s) simplicity_keywords \<longleftrightarrow>
     (\<exists>kw \<in> {''simple'', ''basic'', ''easy'', ''quick'', ''minimal''}. str_in kw s)"
  unfolding simplicity_keywords_def list_ex_iff by (rule bex_cong) simp_all

lemma score_name_match_spec:
  "score_name_match g (query_tokens q) (s, rs) =
     (s + real (name_word_overlap g q) * 10.0,
      rs @ (if name_word_overlap g q > 0 then [''name matches '' @ sq @ name g @ sq] else []))"
  unfolding score_name_match_def name_word_overlap_def tokens_of_def Let_def
  by (cases "card (query_tokens q \<inter> set (findall_w (lower (name g)))) > 0") simp_all

lemma exact_name_bonus_spec:
  "exact_name_bonus g (lower q) (s, rs) =
     (s + (if name_substring g q then 20.0 else 0),
      rs @ (if name_substring g q then [''name closely matches query''] else []))"
  unfolding exact_name_bonus_def name_substring_def Let_def
  by (cases "str_in (lower q) (lower (name g)) \<or> str_in (lower (name g)) (lower q)") simp_all

lemma score_description_match_spec:
  "score_description_match g (query_tokens q) (s, rs) =
     (s + real (description_word_overlap g q) * 5.0,
      rs @ (if description_word_overlap g q > 0 then [''description contains relevant keywords'']
            else []))"
  unfolding score_description_match_def description_word_overlap_def tokens_of_def Let_def
    lower_Nil_iff
  by (cases "description g = []";
      cases "card (query_tokens q \<inter> set (findall_w (lower (description g)))) > 0") simp_all

lemma score_category_match_spec:
  "score_category_match g (query_tokens q) (s, rs) =
     (s + real (category_word_overlap g q) * 7.0,
      rs @ (if category_word_overlap g q > 0
            then [''category '' @ sq @ category g @ sq @ '' matches''] else []))"
  unfolding score_category_match_def category_word_overlap_def tokens_of_def Let_def
  by (cases "card (query_tokens q \<inter> set (findall_w (lower (category g)))) > 0") simp_all

lemma score_node_matches_spec:
  "set ws = query_tokens q \<Longrightarrow>
   score_node_matches g ws (s, rs) =
     (s + real (matched_nodes g q) * 3.0,
      rs @ (if matched_nodes g q > 0
            then [''contains '' @ str_nat (matched_nodes g q) @ '' relevant node(s)''] else []))"
  unfolding score_node_matches_def Let_def
  by (cases "matched_nodes g q > 0") (simp_all add: node_loop_matched)

lemma complexity_bonus_step_spec:
  "complexity_bonus_step g (lower q) (s, rs) =
     (s + (if complexity_bonus g q then 5.0 else 0),
      rs @ (if complexity_bonus g q
            then [''complex graph with '' @ str_int (node_count g) @ '' nodes''] else []))"
  unfolding complexity_bonus_step_def complexity_bonus_def complexity_keywords_iff
  by (cases "\<exists>kw \<in> {''complex'', ''advanced'', ''detailed'', ''comprehensive''}. str_in kw (lower q)";
      cases "node_count g > 10") simp_all

lemma simplicity_bonus_step_spec:
  "simplicity_bonus_step g (lower q) (s, rs) =
     (s + (if simplicity_bonus g q then 5.0 else 0),
      rs @ (if simplicity_bonus g q
            then [''simple graph with '' @ str_int (node_count g) @ '' nodes''] else []))"
  unfolding simplicity_bonus_step_def simplicity_bonus_def simplicity_keywords_iff
  by (cases "\<exists>kw \<in> {''simple'', ''basic'', ''easy'', ''quick'', ''minimal''}. str_in kw (lower q)";
      cases "node_count g \<le> 5") simp_all

lemma score_graph_iter_spec:
  assumes "set ws = query_tokens q"
  shows "score_graph_iter ws g q = (spec_score g q, spec_explanation g q)"
proof -
  have "score_graph_iter ws g q =
     (0.0 + real (name_word_overlap g q) * 10.0
        + (if name_substring g q then 20.0 else 0)
        + real (description_word_overlap g q) * 5.0
        + real (category_word_overlap g q) * 7.0
        + real (matched_nodes g q) * 3.0
        + (if complexity_bonus g q then 5.0 else 0)
        + (if simplicity_bonus g q then 5.0 else 0),
      generate_explanation ([] @ spec_clauses g q))"
    unfolding score_graph_iter_def Let_def query_tokens_def[symmetric]
      score_name_match_spec exact_name_bonus_spec score_description_match_spec
      score_category_match_spec score_node_matches_spec[OF assms]
      complexity_bonus_step_spec simplicity_bonus_step_spec spec_clauses_def
      prod.case append_assoc
    by (rule refl)
  moreover have "generate_explanation ([] @ spec_clauses g q) = spec_explanation g q"
    by (cases "spec_clauses g q = []")
       (simp_all add: generate_explanation_def spec_explanation_def)
  moreover have "0.0 + real (name_word_overlap g q) * 10.0
        + (if name_substring g q then 20.0 else 0)
        + real (description_word_overlap g q) * 5.0
        + real (category_word_overlap g q) * 7.0
        + real (matched_nodes g q) * 3.0
        + (if complexity_bonus g q then 5.0 else 0)
        + (if simplicity_bonus g q then 5.0 else 0) = spec_score g q"
    unfolding spec_score_def by (simp split del: if_split cong: if_cong)
  ultimately show ?thesis
    by (simp only:)
qed

lemma score_graph_spec: "score_graph g q = (spec_score g q, spec_explanation g q)"
  unfolding score_graph_def by (rule score_graph_iter_spec) (simp add: query_tokens_def)

lemma no_clause_no_score: "spec_clauses g q = [] \<Longrightarrow> spec_score g q = 0"
  unfolding spec_clauses_def spec_score_def by (simp split: if_splits)

text \<open>
  C1. For every record and query the scorer returns the sum of the seven signals with
  the weights 10, 20, 5, 7, 3, 5 and 5 (the description signal only for a non-empty
  description, a node counted once, the bonuses on the lower-cased untokenised query and
  on \<open>node_count > 10\<close> and \<open>node_count \<le> 5\<close>), and the explanation
  \<open>Recommended because\<close> followed by the clauses of the fired signals joined by a comma
  and a space and closed by a full stop; when no signal fires the score is 0 and the
  explanation is \<open>No specific match found.\<close>
\<close>

theorem score_graph_seven_signals:
  "score_graph g q = (spec_score g q, spec_explanation g q)
   \<and> (spec_clauses g q = [] \<longrightarrow> score_graph g q = (0, ''No specific match found.''))"
  by (simp add: score_graph_spec no_clause_no_score spec_explanation_def)

theorem score_graph_seven_signals_witness:
  "spec_clauses simple_rectangle ''zebra'' = []
   \<and> score_graph simple_rectangle ''zebra'' = (0, ''No specific match found.'')"
proof -
  have "spec_clauses simple_rectangle ''zebra'' = []"
    by code_simp
  then show ?thesis
    using score_graph_seven_signals [of simple_rectangle "''zebra''"] by blast
qed


section \<open>The score is non-negative and does not depend on the iteration order\<close>

lemma spec_score_nonneg: "0 \<le> spec_score g q"
  unfolding spec_score_def by (intro add_nonneg_nonneg) simp_all

text \<open>
  C6. For every record and query the score is at least 0, and the scorer is a function
  of the record and the query alone: whatever order the set of query tokens is iterated
  in, the score and the explanation are the same.
\<close>

theorem score_graph_nonneg_deterministic:
  "0 \<le> fst (score_graph g q)
   \<and> (\<forall>ws. set ws = set (findall_w (lower q)) \<longrightarrow> score_graph_iter ws g q = score_graph g q)"
  by (simp add: score_graph_spec spec_score_nonneg score_graph_iter_spec query_tokens_def)

theorem score_graph_nonneg_deterministic_witness:
  "set [''simple'', ''rectangle''] = set (findall_w (lower ''Rectangle simple''))
   \<and> score_graph_iter [''simple'', ''rectangle''] simple_rectangle ''Rectangle simple''
       = score_graph simple_rectangle ''Rectangle simple''
   \<and> 0 \<le> fst (score_graph simple_rectangle ''Rectangle simple'')"
proof -
  have "set [''simple'', ''rectangle''] = set (findall_w (lower ''Rectangle simple''))"
    by code_simp
  then show ?thesis
    using score_graph_nonneg_deterministic [of simple_rectangle "''Rectangle simple''"]
    by blast
qed


section \<open>Ranking\<close>

lemma score_all_eq:
  "score_all gs q acc =
     acc @ map (\<lambda>g. (g, score_graph g q)) (filter (\<lambda>g. 0 < fst (score_graph g q)) gs)"
  by (induction gs arbitrary: acc) (simp_all add: Let_def split_beta)

lemma recommend_eq:
  "0 \<le> k \<Longrightarrow>
   recommend c q k =
     take (nat k)
       (sort_key (\<lambda>x. - fst (snd x))
          (map (\<lambda>g. (g, score_graph g q)) (filter (\<lambda>g. 0 < fst (score_graph g q)) (graphs c))))"
  by (simp add: recommend_def get_all_graphs_def Let_def score_all_eq sort_by_score_desc_def
      slice_to_def)

lemma recommend_set:
  assumes "0 \<le> k" and "x \<in> set (recommend c q k)"
  shows "fst x \<in> set (graphs c) \<and> snd x = score_graph (fst x) q \<and> 0 < fst (snd x)"
proof -
  from assms have "x \<in> set (map (\<lambda>g. (g, score_graph g q))
                     (filter (\<lambda>g. 0 < fst (score_graph g q)) (graphs c)))"
    by (auto simp: recommend_eq dest: in_set_takeD)
  then show ?thesis by auto
qed

lemma recommend_sorted:
  assumes "0 \<le> k"
  shows "sorted_wrt (\<lambda>a b. fst (snd b) \<le> fst (snd a)) (recommend c q k)"
proof -
  have "sorted (map (\<lambda>x. - fst (snd x)) (sort_key (\<lambda>x. - fst (snd x)) xs))"
    for xs :: "result list"
    by (rule sorted_sort_key)
  then have "sorted_wrt (\<lambda>a b. fst (snd b) \<le> fst (snd a)) (sort_key (\<lambda>x. - fst (snd x)) xs)"
    for xs :: "result list"
    by (simp add: sorted_map)
  then show ?thesis
    using assms by (simp add: recommend_eq)
qed

lemma recommend_stable:
  assumes "0 \<le> k"
  shows "prefix (map fst (filter (\<lambda>x. fst (snd x) = s) (recommend c q k)))
           (filter (\<lambda>g. fst (score_graph g q) = s) (graphs c))"
proof -
  let ?scored = "map (\<lambda>g. (g, score_graph g q))
                   (filter (\<lambda>g. 0 < fst (score_graph g q)) (graphs c))"
  let ?key = "\<lambda>x :: result. - fst (snd x)"
  have "prefix (recommend c q k) (sort_key ?key ?scored)"
    using assms by (simp add: recommend_eq take_is_prefix)
  then have "prefix (filter (\<lambda>x. ?key x = - s) (recommend c q k))
               (filter (\<lambda>x. ?key x = - s) (sort_key ?key ?scored))"
    by (rule filter_mono_prefix)
  then have "prefix (filter (\<lambda>x. ?key x = - s) (recommend c q k))
               (filter (\<lambda>x. ?key x = - s) ?scored)"
    by (simp only: sort_key_stable)
  then have "prefix (map fst (filter (\<lambda>x. fst (snd x) = s) (recommend c q k)))
               (map fst (filter (\<lambda>x. fst (snd x) = s) ?scored))"
    by (simp add: map_mono_prefix)
  moreover have "map fst (filter (\<lambda>x. fst (snd x) = s) ?scored)
                   = (if 0 < s then filter (\<lambda>g. fst (score_graph g q) = s) (graphs c) else [])"
    by (auto simp: filter_map o_def intro: filter_cong)
  ultimately show ?thesis
    by (simp split: if_splits)
qed

lemma recommend_none:
  assumes "0 \<le> k" and "\<forall>g \<in> set (graphs c). fst (score_graph g q) \<le> 0"
  shows "recommend c q k = []"
proof -
  from assms(2) have "filter (\<lambda>g. 0 < fst (score_graph g q)) (graphs c) = []"
    by (auto simp: filter_empty_conv)
  then show ?thesis
    using assms(1) by (simp add: recommend_eq)
qed

text \<open>
  C2. For every catalog, query and positive \<open>k\<close>, \<open>recommend\<close> returns at most \<open>k\<close>
  results; each is a catalog record with its score and explanation, and the score is
  positive; the scores do not increase along the result; for every score, the results
  with that score are the first catalog records with that score, in catalog order; and
  a catalog without a record scoring above 0 (the empty one included) gives the empty
  result.
\<close>

theorem recommend_top_k:
  "0 < k \<Longrightarrow>
   length (recommend c q k) \<le> nat k
   \<and> (\<forall>x \<in> set (recommend c q k).
        fst x \<in> set (graphs c) \<and> snd x = score_graph (fst x) q \<and> 0 < fst (snd x))
   \<and> sorted_wrt (\<lambda>a b. fst (snd b) \<le> fst (snd a)) (recommend c q k)
   \<and> (\<forall>s. prefix (map fst (filter (\<lambda>x. fst (snd x) = s) (recommend c q k)))
              (filter (\<lambda>g. fst (score_graph g q) = s) (graphs c)))
   \<and> ((\<forall>g \<in> set (graphs c). fst (score_graph g q) \<le> 0) \<longrightarrow> recommend c q k = [])"
proof -
  assume "0 < k"
  then have k: "0 \<le> k" by simp
  have "length (recommend c q k) \<le> nat k"
    by (simp add: recommend_eq [OF k])
  moreover have "\<forall>x \<in> set (recommend c q k).
        fst x \<in> set (graphs c) \<and> snd x = score_graph (fst x) q \<and> 0 < fst (snd x)"
    using recommend_set [OF k] by blast
  moreover note recommend_sorted [OF k, of c q]
  moreover have "\<forall>s. prefix (map fst (filter (\<lambda>x. fst (snd x) = s) (recommend c q k)))
              (filter (\<lambda>g. fst (score_graph g q) = s) (graphs c))"
    using recommend_stable [OF k] by blast
  moreover have "(\<forall>g \<in> set (graphs c). fst (score_graph g q) \<le> 0) \<longrightarrow> recommend c q k = []"
    using recommend_none [OF k] by blast
  ultimately show ?thesis by blast
qed

theorem recommend_top_k_witness:
  "(0::int) < 5
   \<and> recommend scenario_catalog ''simple'' 5 \<noteq> []
   \<and> length (recommend scenario_catalog ''simple'' 5) \<le> nat 5
   \<and> 0 < fst (snd (hd (recommend scenario_catalog ''simple'' 5)))
   \<and> list_all (\<lambda>g. fst (score_graph g ''zebra'') \<le> 0) (graphs scenario_catalog)
   \<and> recommend scenario_catalog ''zebra'' 5 = []"
proof -
  have pos: "(0::int) < 5"
    by simp
  have ne: "recommend scenario_catalog ''simple'' 5 \<noteq> []"
    by code_simp
  then have hd: "hd (recommend scenario_catalog ''simple'' 5)
      \<in> set (recommend scenario_catalog ''simple'' 5)"
    by (rule hd_in_set)
  have none: "list_all (\<lambda>g. fst (score_graph g ''zebra'') \<le> 0) (graphs scenario_catalog)"
    by code_simp
  then have none': "\<forall>g \<in> set (graphs scenario_catalog). fst (score_graph g ''zebra'') \<le> 0"
    by (simp add: list_all_iff)
  show ?thesis
    using pos ne hd none none'
      recommend_top_k [OF pos, of scenario_catalog "''simple''"]
      recommend_top_k [OF pos, of scenario_catalog "''zebra''"]
    by blast
qed


section \<open>The empty query\<close>

lemma query_tokens_Nil: "query_tokens [] = {}"
  by (simp add: query_tokens_def findall_w_def lower_def)

lemma spec_clauses_empty_query: "spec_clauses g [] = [''name closely matches query'']"
proof -
  have "name_word_overlap g [] = 0" "description_word_overlap g [] = 0"
    "category_word_overlap g [] = 0"
    by (simp_all add: name_word_overlap_def description_word_overlap_def
        category_word_overlap_def query_tokens_Nil)
  moreover have "matched_nodes g [] = 0"
    by (simp add: matched_nodes_def node_matched_def query_tokens_Nil)
  moreover have "name_substring g []"
    by (simp add: name_substring_def lower_def str_in_Nil)
  moreover have "\<not> complexity_bonus g []" "\<not> simplicity_bonus g []"
    by (simp_all add: complexity_bonus_def simplicity_bonus_def lower_def)
  ultimately show ?thesis
    by (simp add: spec_clauses_def)
qed

lemma spec_score_empty_query: "spec_score g [] = 20"
proof -
  have "name_word_overlap g [] = 0" "description_word_overlap g [] = 0"
    "category_word_overlap g [] = 0"
    by (simp_all add: name_word_overlap_def description_word_overlap_def
        category_word_overlap_def query_tokens_Nil)
  moreover have "matched_nodes g [] = 0"
    by (simp add: matched_nodes_def node_matched_def query_tokens_Nil)
  moreover have "name_substring g []"
    by (simp add: name_substring_def lower_def str_in_Nil)
  moreover have "\<not> complexity_bonus g []" "\<not> simplicity_bonus g []"
    by (simp_all add: complexity_bonus_def simplicity_bonus_def lower_def)
  ultimately show ?thesis
    by (simp add: spec_score_def)
qed

lemma score_graph_empty_query:
  "score_graph g [] = (20, ''Recommended because name closely matches query.'')"
  by (simp add: score_graph_spec spec_score_empty_query spec_explanation_def
      spec_clauses_empty_query)

lemma sorted_map_const: "sorted (map (\<lambda>x. c) xs)"
  by (induction xs) simp_all

lemma recommend_empty_query:
  assumes "0 \<le> k"
  shows "recommend c [] k =
           map (\<lambda>g. (g, 20, ''Recommended because name closely matches query.''))
             (take (nat k) (graphs c))"
proof -
  let ?e = "''Recommended because name closely matches query.''"
  have scored: "map (\<lambda>g. (g, score_graph g [])) (filter (\<lambda>g. 0 < fst (score_graph g [])) (graphs c))
          = map (\<lambda>g. (g, 20, ?e)) (graphs c)"
    by (simp only: score_graph_empty_query) simp
  have "sorted (map (\<lambda>x. - fst (snd x)) (map (\<lambda>g. (g, 20::real, ?e)) (graphs c)))"
    by (simp only: map_map o_def fst_conv snd_conv sorted_map_const)
  then have "sort_key (\<lambda>x. - fst (snd x)) (map (\<lambda>g. (g, 20::real, ?e)) (graphs c))
          = map (\<lambda>g. (g, 20, ?e)) (graphs c)"
    by (rule sort_key_id_if_sorted)
  then show ?thesis
    by (simp only: recommend_eq [OF assms] scored take_map)
qed

text \<open>
  C10. For the empty query every record scores exactly 20 with the explanation
  \<open>Recommended because name closely matches query.\<close>, and \<open>recommend\<close> returns the
  first \<open>k\<close> catalog records in catalog order, that is \<open>min k (catalog size)\<close> results.
\<close>

theorem empty_query_scores_twenty:
  "score_graph g [] = (20, ''Recommended because name closely matches query.'')
   \<and> (0 \<le> k \<longrightarrow>
        recommend c [] k =
          map (\<lambda>g. (g, 20, ''Recommended because name closely matches query.''))
            (take (nat k) (graphs c))
        \<and> length (recommend c [] k) = min (nat k) (length (graphs c)))"
  by (simp add: score_graph_empty_query recommend_empty_query min.commute)

theorem empty_query_scores_twenty_witness:
  "(0::int) \<le> 1
   \<and> recommend scenario_catalog [] 1
       = [(simple_rectangle, 20, ''Recommended because name closely matches query.'')]
   \<and> recommend scenario_catalog [] 5
       = [(simple_rectangle, 20, ''Recommended because name closely matches query.''),
          (complex_wall_analysis, 20, ''Recommended because name closely matches query.'')]"
  using empty_query_scores_twenty [of simple_rectangle 1 scenario_catalog]
    empty_query_scores_twenty [of simple_rectangle 5 scenario_catalog]
  by (simp add: scenario_catalog_def)


section \<open>Lookup by name\<close>

lemma get_graph_by_name_loop_find:
  "get_graph_by_name_loop gs n = List.find (\<lambda>g. lower (name g) = lower n) gs"
  by (induction gs) simp_all

text \<open>
  C7. \<open>get_graph_by_name\<close> returns not-found exactly when no record's lower-cased name
  equals the lower-cased argument, and otherwise the first record in catalog order whose
  lower-cased name equals it.
\<close>

theorem get_graph_by_name_first_match:
  "(get_graph_by_name c n = None \<longleftrightarrow> (\<forall>g \<in> set (graphs c). lower (name g) \<noteq> lower n))
   \<and> (get_graph_by_name c n = Some g \<longleftrightarrow>
        (\<exists>i < length (graphs c). graphs c ! i = g \<and> lower (name g) = lower n
           \<and> (\<forall>j < i. lower (name (graphs c ! j)) \<noteq> lower n)))"
  unfolding get_graph_by_name_def get_graph_by_name_loop_find
  by (auto simp: find_None_iff find_Some_iff)

theorem get_graph_by_name_first_match_witness:
  "get_graph_by_name scenario_catalog ''SIMPLE rectangle'' = Some simple_rectangle
   \<and> (\<exists>i < length (graphs scenario_catalog). graphs scenario_catalog ! i = simple_rectangle
         \<and> lower (name simple_rectangle) = lower ''SIMPLE rectangle''
         \<and> (\<forall>j < i. lower (name (graphs scenario_catalog ! j)) \<noteq> lower ''SIMPLE rectangle''))
   \<and> get_graph_by_name scenario_catalog ''Rectangle'' = None
   \<and> list_all (\<lambda>g. lower (name g) \<noteq> lower ''Rectangle'') (graphs scenario_catalog)"
proof -
  have "get_graph_by_name scenario_catalog ''SIMPLE rectangle'' = Some simple_rectangle"
    by code_simp
  moreover have "get_graph_by_name scenario_catalog ''Rectangle'' = None"
    by code_simp
  ultimately show ?thesis
    unfolding list_all_iff
    using get_graph_by_name_first_match [of scenario_catalog "''SIMPLE rectangle''" simple_rectangle]
      get_graph_by_name_first_match [of scenario_catalog "''Rectangle''" simple_rectangle]
    by blast
qed


section \<open>Search\<close>

lemma search_loop_filter:
  "search_loop gs ql results = results @ filter (\<lambda>g. str_in ql (searchable_text g)) gs"
  by (induction gs arbitrary: results) simp_all

text \<open>
  C3, as the specification states it, fails: the record \<open>Simple Rectangle\<close> of category
  \<open>Geometry\<close> has \<open>rectanglegeometry\<close> in the concatenation of its fields but is not
  found, because the source puts a space between the fields.
\<close>

theorem search_concatenation_counterexample:
  "simple_rectangle \<in> set (get_all_graphs scenario_catalog)
   \<and> spec_search_member ''rectanglegeometry'' simple_rectangle
   \<and> simple_rectangle \<notin> set (search_graphs scenario_catalog ''rectanglegeometry'')"
  by code_simp

text \<open>
  C3, amended. \<open>search\<close> returns, in catalog order, exactly the records of \<open>get_all\<close>
  for which the lower-cased query is a substring of the lower-cased text made of the
  name, the description, the category and the node names joined by single spaces; so
  the result is a subsequence of \<open>get_all\<close>.
\<close>

theorem search_graphs_spaced_text:
  "search_graphs c q =
     filter (\<lambda>g. str_in (lower q)
                 (lower (name g @ '' '' @ description g @ '' '' @ category g @ '' ''
                         @ join '' '' (map node_name (nodes g)))))
       (get_all_graphs c)
   \<and> subseq (search_graphs c q) (get_all_graphs c)"
  by (simp add: search_graphs_def search_loop_filter searchable_text_def get_all_graphs_def)

theorem search_graphs_spaced_text_witness:
  "search_graphs scenario_catalog ''RECTANGLE  geo'' = [simple_rectangle]
   \<and> subseq [simple_rectangle] (get_all_graphs scenario_catalog)"
proof -
  have found: "search_graphs scenario_catalog ''RECTANGLE  geo'' = [simple_rectangle]"
    by code_simp
  have "subseq (search_graphs scenario_catalog ''RECTANGLE  geo'')
          (get_all_graphs scenario_catalog)"
    using search_graphs_spaced_text [of scenario_catalog "''RECTANGLE  geo''"]
    by (rule conjunct2)
  with found show ?thesis
    by simp
qed


section \<open>The boundary of the complexity bonus\<close>

lemma simple_in_simple_rectangle:
  "card (query_tokens ''simple'' \<inter> tokens_of ''Simple Rectangle'') = 1"
  "str_in (lower ''simple'') (lower ''Simple Rectangle'')"
  by code_simp+

lemma simple_not_in_complex_wall_analysis:
  "card (query_tokens ''simple'' \<inter> tokens_of ''Complex Wall Analysis'') = 0"
  "\<not> str_in (lower ''simple'') (lower ''Complex Wall Analysis'')"
  "\<not> str_in (lower ''Complex Wall Analysis'') (lower ''simple'')"
  by code_simp+

lemma simple_keywords:
  "\<not> (\<exists>kw \<in> {''complex'', ''advanced'', ''detailed'', ''comprehensive''}. str_in kw (lower ''simple''))"
  "\<exists>kw \<in> {''simple'', ''basic'', ''easy'', ''quick'', ''minimal''}. str_in kw (lower ''simple'')"
  by code_simp+

lemma str_int_3: "str_int 3 = ''3''"
  by code_simp

lemma score_simple_rectangle:
  assumes "name g = ''Simple Rectangle''" "node_count g = 3" "description g = []"
    and "category_word_overlap g ''simple'' = 0" "matched_nodes g ''simple'' = 0"
  shows "score_graph g ''simple'' =
           (35, ''Recommended because name matches '' @ sq @ ''Simple Rectangle'' @ sq
                @ '', name closely matches query, simple graph with 3 nodes.'')"
proof -
  have n: "name_word_overlap g ''simple'' = 1"
    by (simp add: name_word_overlap_def assms simple_in_simple_rectangle)
  have s: "name_substring g ''simple''"
    by (simp add: name_substring_def assms simple_in_simple_rectangle)
  have d: "description_word_overlap g ''simple'' = 0"
    by (simp add: description_word_overlap_def assms)
  have c: "\<not> complexity_bonus g ''simple''"
    unfolding complexity_bonus_def using simple_keywords(1) by blast
  have b: "simplicity_bonus g ''simple''"
    unfolding simplicity_bonus_def using simple_keywords(2) assms(2) by simp
  have score: "spec_score g ''simple'' = 35"
    by (simp add: spec_score_def n s d c b assms)
  have clauses: "spec_clauses g ''simple'' =
      [''name matches '' @ sq @ ''Simple Rectangle'' @ sq, ''name closely matches query'',
       ''simple graph with 3 nodes'']"
    by (simp add: spec_clauses_def n s d c b assms str_int_3)
  show ?thesis
    by (simp add: score_graph_spec score spec_explanation_def clauses)
qed

lemma score_complex_wall_analysis:
  assumes "name g = ''Complex Wall Analysis''" "node_count g = 10" "description g = []"
    and "category_word_overlap g ''simple'' = 0" "matched_nodes g ''simple'' = 0"
  shows "score_graph g ''simple'' = (0, ''No specific match found.'')"
proof -
  have n: "name_word_overlap g ''simple'' = 0"
    by (simp add: name_word_overlap_def assms simple_not_in_complex_wall_analysis)
  have s: "\<not> name_substring g ''simple''"
    by (simp add: name_substring_def assms simple_not_in_complex_wall_analysis)
  have d: "description_word_overlap g ''simple'' = 0"
    by (simp add: description_word_overlap_def assms)
  have c: "\<not> complexity_bonus g ''simple''"
    by (simp add: complexity_bonus_def assms)
  have b: "\<not> simplicity_bonus g ''simple''"
    by (simp add: simplicity_bonus_def assms)
  have score: "spec_score g ''simple'' = 0"
    by (simp add: spec_score_def n s d c b assms)
  have clauses: "spec_clauses g ''simple'' = []"
    by (simp add: spec_clauses_def n s d c b assms)
  show ?thesis
    by (simp add: score_graph_spec score spec_explanation_def clauses)
qed

lemma complexity_bonus_step_at_10:
  "node_count g = 10 \<Longrightarrow> complexity_bonus_step g il st = st"
  by (cases st) (simp add: complexity_bonus_step_def)

text \<open>
  C9. The complexity block leaves score and reasons as they are for a record with
  \<open>node_count\<close> exactly 10, whatever the query. For a catalog holding exactly a record
  named \<open>Simple Rectangle\<close> with \<open>node_count\<close> 3 and one named \<open>Complex Wall Analysis\<close>
  with \<open>node_count\<close> 10, in either order, with empty descriptions and no matching
  category or node, \<open>recommend\<close> on \<open>simple\<close> with \<open>k = 5\<close> puts \<open>Simple Rectangle\<close>
  first with score 35, and \<open>Complex Wall Analysis\<close> scores 0 and is not listed.
\<close>

theorem complexity_boundary_scenario:
  "(node_count g = 10 \<longrightarrow> complexity_bonus_step g il st = st)
   \<and> (name g1 = ''Simple Rectangle'' \<and> node_count g1 = 3 \<and> description g1 = []
       \<and> category_word_overlap g1 ''simple'' = 0 \<and> matched_nodes g1 ''simple'' = 0
       \<and> name g2 = ''Complex Wall Analysis'' \<and> node_count g2 = 10 \<and> description g2 = []
       \<and> category_word_overlap g2 ''simple'' = 0 \<and> matched_nodes g2 ''simple'' = 0
       \<and> (graphs c = [g1, g2] \<or> graphs c = [g2, g1])
       \<longrightarrow> recommend c ''simple'' 5 =
             [(g1, 35, ''Recommended because name matches '' @ sq @ ''Simple Rectangle'' @ sq
                       @ '', name closely matches query, simple graph with 3 nodes.'')]
           \<and> score_graph g2 ''simple'' = (0, ''No specific match found.''))"
proof (intro conjI impI)
  assume "node_count g = 10"
  then show "complexity_bonus_step g il st = st"
    by (rule complexity_bonus_step_at_10)
next
  assume h: "name g1 = ''Simple Rectangle'' \<and> node_count g1 = 3 \<and> description g1 = []
       \<and> category_word_overlap g1 ''simple'' = 0 \<and> matched_nodes g1 ''simple'' = 0
       \<and> name g2 = ''Complex Wall Analysis'' \<and> node_count g2 = 10 \<and> description g2 = []
       \<and> category_word_overlap g2 ''simple'' = 0 \<and> matched_nodes g2 ''simple'' = 0
       \<and> (graphs c = [g1, g2] \<or> graphs c = [g2, g1])"
  then have s1: "score_graph g1 ''simple'' =
           (35, ''Recommended because name matches '' @ sq @ ''Simple Rectangle'' @ sq
                @ '', name closely matches query, simple graph with 3 nodes.'')"
    by (intro score_simple_rectangle) simp_all
  from h have s2: "score_graph g2 ''simple'' = (0, ''No specific match found.'')"
    by (intro score_complex_wall_analysis) simp_all
  from h have "graphs c = [g1, g2] \<or> graphs c = [g2, g1]"
    by simp
  then have "filter (\<lambda>g. 0 < fst (score_graph g ''simple'')) (graphs c) = [g1]"
    by (auto simp: s1 s2)
  then show "recommend c ''simple'' 5 =
             [(g1, 35, ''Recommended because name matches '' @ sq @ ''Simple Rectangle'' @ sq
                       @ '', name closely matches query, simple graph with 3 nodes.'')]"
    by (simp add: recommend_eq s1)
  show "score_graph g2 ''simple'' = (0, ''No specific match found.'')"
    by (rule s2)
qed

theorem complexity_boundary_scenario_witness:
  "node_count complex_wall_analysis = 10
   \<and> complexity_bonus_step complex_wall_analysis (lower ''complex'') (30, []) = (30, [])
   \<and> graphs scenario_catalog = [simple_rectangle, complex_wall_analysis]
   \<and> recommend scenario_catalog ''simple'' 5 =
       [(simple_rectangle, 35,
         ''Recommended because name matches '' @ sq @ ''Simple Rectangle'' @ sq
         @ '', name closely matches query, simple graph with 3 nodes.'')]
   \<and> score_graph complex_wall_analysis ''simple'' = (0, ''No specific match found.'')"
proof -
  have h: "name simple_rectangle = ''Simple Rectangle'' \<and> node_count simple_rectangle = 3
       \<and> description simple_rectangle = []
       \<and> category_word_overlap simple_rectangle ''simple'' = 0
       \<and> matched_nodes simple_rectangle ''simple'' = 0
       \<and> name complex_wall_analysis = ''Complex Wall Analysis''
       \<and> node_count complex_wall_analysis = 10 \<and> description complex_wall_analysis = []
       \<and> category_word_overlap complex_wall_analysis ''simple'' = 0
       \<and> matched_nodes complex_wall_analysis ''simple'' = 0
       \<and> (graphs scenario_catalog = [simple_rectangle, complex_wall_analysis]
          \<or> graphs scenario_catalog = [complex_wall_analysis, simple_rectangle])"
    by code_simp
  have g: "graphs scenario_catalog = [simple_rectangle, complex_wall_analysis]"
    by (simp add: scenario_catalog_def)
  show ?thesis
    using h g
      complexity_boundary_scenario [of complex_wall_analysis "lower ''complex''" "(30, [])"
        simple_rectangle complex_wall_analysis scenario_catalog]
    by blast
qed


section \<open>The name of a parsed record\<close>

text \<open>
  C5, as the specification states it, fails: a file whose JSON object has the key
  \<open>Name\<close> with the empty string is parsed into a record with the empty name.
\<close>

theorem parsed_name_empty_counterexample:
  "map_option name (parse_dyn_file empty_name_file) = Some (JStr [])"
  by code_simp

lemma parse_body_name:
  assumes "parse_body f = Inr m"
  shows "\<exists>content. load f = Inr (JDict content)
           \<and> name m = (case map_of content ''Name'' of None \<Rightarrow> JStr (path_stem f) | Some v \<Rightarrow> v)"
proof (cases "load f")
  case (Inl e)
  with assms show ?thesis
    by (simp add: parse_body_def)
next
  case (Inr j)
  show ?thesis
  proof (cases j)
    case (JDict content)
    with Inr assms have "name m = dict_get content ''Name'' (JStr (path_stem f))"
      by (auto simp: parse_body_def Let_def split: option.splits json.splits)
    with Inr JDict show ?thesis
      by (simp add: dict_get_def)
  qed (use Inr assms in \<open>simp_all add: parse_body_def\<close>)
qed

text \<open>
  C5, amended. The name of a record produced by \<open>parse_dyn_file\<close> is the value of the
  key \<open>Name\<close> of the file's JSON object when the key is present, whatever its value,
  and the file stem when the key is absent; so a record built from a file without the
  key and with a non-empty stem has a non-empty name.
\<close>

theorem parse_dyn_file_name:
  "parse_dyn_file f = Some m \<Longrightarrow>
   \<exists>content. load f = Inr (JDict content)
     \<and> name m = (case map_of content ''Name'' of None \<Rightarrow> JStr (path_stem f) | Some v \<Rightarrow> v)
     \<and> (map_of content ''Name'' = None \<and> path_stem f \<noteq> [] \<longrightarrow> name m \<noteq> JStr [])"
proof -
  assume "parse_dyn_file f = Some m"
  then have "parse_body f = Inr m"
    by (simp add: parse_dyn_file_def split: sum.splits)
  from parse_body_name [OF this] show ?thesis
    by auto
qed

theorem parse_dyn_file_name_witness:
  "map_option name (parse_dyn_file unnamed_file) = Some (JStr ''plain'')
   \<and> load unnamed_file = Inr (JDict [(''Nodes'', JList [])])
   \<and> map_of [(''Nodes'', JList [])] ''Name'' = None \<and> path_stem unnamed_file \<noteq> []"
proof -
  obtain m where m: "parse_dyn_file unnamed_file = Some m"
    by (simp add: parse_dyn_file_def parse_body_def unnamed_file_def Let_def)
  have l: "load unnamed_file = Inr (JDict [(''Nodes'', JList [])])"
    and s: "path_stem unnamed_file = ''plain''"
    by (simp_all add: unnamed_file_def)
  from parse_dyn_file_name [OF m] l s have "name m = JStr ''plain''"
    by auto
  with m l s show ?thesis
    by simp
qed


section \<open>Rebuilding the catalog\<close>













text \<open>
  C4 does not hold of the source: \<open>build_catalog\<close> resets the graph list but appends to
  the documentation list without resetting it. Building twice over the same file system,
  with one documentation file, leaves that file's record twice in the catalog, the first
  carried over from the first build; the graph list holds the current walk only.
\<close>

theorem build_catalog_keeps_docs:
  "docs (fst (build_catalog example_fs (init_catalog (Some ''/docs'')))) = [guide_doc]
   \<and> docs (fst (build_catalog example_fs
                  (fst (build_catalog example_fs (init_catalog (Some ''/docs''))))))
       = [guide_doc, guide_doc]
   \<and> map (\<lambda>g. filename g)
         (graphs (fst (build_catalog example_fs
                         (fst (build_catalog example_fs (init_catalog (Some ''/docs'')))))))
       = [''plain.dyn'', ''wall.dyn'']"
  by code_simp

end
